theory Spec2Isabelle
  imports Complex_Main "HOL-Library.Multiset"
begin

section \<open>Data model (types.ts)\<close>

text \<open>
  JavaScript numbers are modelled as exact reals: the development reasons about the
  arithmetic the solver performs, without rounding error, overflow or NaN. Integer
  identifiers are \<open>int\<close>. An optional field is an \<open>option\<close>. Record fields carry a
  short prefix because field names are global constants (\<open>id\<close>, \<open>x\<close>, \<open>E\<close> would
  clash with variables and with the identity function).
\<close>

record node =
  nid :: int
  nx :: real
  ny :: real
  restraints :: "bool \<times> bool \<times> bool"

record element =
  eid :: int
  startNode :: int
  endNode :: int
  elE :: real
  elA :: real
  elI :: real
  releaseStart :: "bool option"
  releaseEnd :: "bool option"

datatype load_type = Point | Distributed | Moment

datatype direction = DirX | DirY

record load =
  lid :: string
  elementId :: "int option"
  nodeId :: "int option"
  ltype :: load_type
  magnitude :: real
  ldirection :: "direction option"
  location :: "real option"

datatype stiffness_type = Elastic | AxiallyRigid | Rigid

text \<open>Truthiness of an optional boolean (\<open>undefined\<close> is falsy) and of an optional
  numeric id (\<open>undefined\<close> and \<open>0\<close> are falsy).\<close>

definition truthy :: "bool option \<Rightarrow> bool" where
  "truthy b = (case b of None \<Rightarrow> False | Some v \<Rightarrow> v)"

definition truthy_id :: "int option \<Rightarrow> bool" where
  "truthy_id i = (case i of None \<Rightarrow> False | Some v \<Rightarrow> v \<noteq> 0)"

text \<open>\<open>l.direction || 'y'\<close> and \<open>l.location !== undefined ? l.location : 0.5\<close>.\<close>

definition dir_or_y :: "load \<Rightarrow> direction" where
  "dir_or_y l = (case ldirection l of None \<Rightarrow> DirY | Some d \<Rightarrow> d)"

definition loc_or_half :: "load \<Rightarrow> real" where
  "loc_or_half l = (case location l of None \<Rightarrow> 1/2 | Some t \<Rightarrow> t)"

section \<open>Numeric cleanup (solver.ts, cleanValue)\<close>

text \<open>\<open>Math.round\<close> rounds half up; \<open>toFixed(4)\<close> rounds the magnitude half up and
  keeps the sign.\<close>

definition js_round :: "real \<Rightarrow> real" where
  "js_round v = of_int \<lfloor>v + 1/2\<rfloor>"

definition toFixed4 :: "real \<Rightarrow> real" where
  "toFixed4 v = (if v < 0 then - (of_int \<lfloor>(- v) * 10000 + 1/2\<rfloor> / 10000)
                 else of_int \<lfloor>v * 10000 + 1/2\<rfloor> / 10000)"

definition cleanValue :: "real \<Rightarrow> real" where
  "cleanValue val =
     (if \<bar>val\<bar> < 1/10000 then 0
      else let rounded = js_round val in
        if \<bar>val - rounded\<bar> < 2/100 then rounded
        else if \<bar>val * 2 - js_round (val * 2)\<bar> < 2/100 then js_round (val * 2) / 2
        else toFixed4 val)"

section \<open>Exact recovery at a station (solver.ts, calculateExactValues)\<close>

record start_forces =
  sf_fx :: real
  sf_fy :: real
  sf_m :: real

record exact_values =
  deflectionY :: real
  axial :: real
  shear :: real
  moment :: real

text \<open>The position actually used: clamp to \<open>[0, L]\<close>, then the two snapping
  assignments in the source's order.\<close>

definition clampX :: "real \<Rightarrow> real \<Rightarrow> real" where
  "clampX xInput L =
     (let x0 = max 0 (min L xInput);
          x1 = (if x0 < 1/10000 then 0 else x0)
      in if \<bar>x1 - L\<bar> < 1/10000 then L else x1)"

text \<open>Decomposition of a load magnitude into local axial and transverse parts.\<close>

definition localMag :: "real \<Rightarrow> real \<Rightarrow> load \<Rightarrow> real \<times> real" where
  "localMag c s l =
     (if ltype l = Distributed \<or> ltype l = Point then
        (if dir_or_y l = DirX then (magnitude l * c, magnitude l * (- s))
         else (magnitude l * s, magnitude l * c))
      else (0, 0))"

text \<open>One iteration of \<open>elementLoads.forEach\<close> on the running triple
  \<open>(N_x, V_x, M_x)\<close>.\<close>

definition exactLoadStep :: "real \<Rightarrow> real \<Rightarrow> real \<Rightarrow> real \<Rightarrow> load \<Rightarrow>
    real \<times> real \<times> real \<Rightarrow> real \<times> real \<times> real" where
  "exactLoadStep x L c s l acc =
     (case acc of (N_x, V_x, M_x) \<Rightarrow>
        (let loc = loc_or_half l * L;
             magX = fst (localMag c s l);
             magY = snd (localMag c s l)
         in if ltype l = Distributed then
              (N_x - magX * x, V_x + magY * x, M_x + magY * x * x / 2)
            else if x > loc + 1/1000000 then
              (if ltype l = Point then (N_x - magX, V_x + magY, M_x + magY * (x - loc))
               else if ltype l = Moment then (N_x, V_x, M_x - magnitude l)
               else (N_x, V_x, M_x))
            else (N_x, V_x, M_x)))"

text \<open>The raw (uncleaned) deflection and internal forces at the position \<open>x\<close>
  already clamped.\<close>

definition rawDeflection :: "real \<Rightarrow> real \<Rightarrow> real list \<Rightarrow> real" where
  "rawDeflection x L u_local =
     (let xi = (if L > 1/1000000000 then x / L else 0);
          N1 = 1 - 3*xi*xi + 2*xi*xi*xi;
          N2 = L * (xi - 2*xi*xi + xi*xi*xi);
          N3 = 3*xi*xi - 2*xi*xi*xi;
          N4 = L * (- xi*xi + xi*xi*xi)
      in N1 * (u_local ! 1) + N2 * (u_local ! 2) + N3 * (u_local ! 4) + N4 * (u_local ! 5))"

definition rawForces :: "real \<Rightarrow> real \<Rightarrow> real \<Rightarrow> real \<Rightarrow> start_forces \<Rightarrow> load list \<Rightarrow>
    real \<times> real \<times> real" where
  "rawForces x L c s startForces elementLoads =
     fold (exactLoadStep x L c s) elementLoads
       (- sf_fx startForces, sf_fy startForces, - sf_m startForces + sf_fy startForces * x)"

definition calculateExactValues :: "real \<Rightarrow> real \<Rightarrow> real \<Rightarrow> real \<Rightarrow> real list \<Rightarrow>
    start_forces \<Rightarrow> load list \<Rightarrow> exact_values" where
  "calculateExactValues xInput L c s u_local startForces elementLoads =
     (let x = clampX xInput L;
          def = rawDeflection x L u_local;
          NVM = rawForces x L c s startForces elementLoads
      in \<lparr> deflectionY = cleanValue (def * 1000),
           axial = cleanValue (fst NVM),
           shear = cleanValue (fst (snd NVM)),
           moment = cleanValue (snd (snd NVM)) \<rparr>)"

section \<open>Matrix helpers and the linear solver (solver.ts)\<close>

text \<open>A matrix is a list of rows, as the source's \<open>number[][]\<close>.\<close>

definition createMatrix :: "nat \<Rightarrow> nat \<Rightarrow> real list list" where
  "createMatrix rows cols = replicate rows (replicate cols 0)"

definition createVector :: "nat \<Rightarrow> real list" where
  "createVector sz = replicate sz 0"

definition multiplyMatrixVector :: "real list list \<Rightarrow> real list \<Rightarrow> real list" where
  "multiplyMatrixVector M v =
     map (\<lambda>i. fold (\<lambda>j acc. acc + M ! i ! j * v ! j) [0..<length (M ! 0)] 0) [0..<length M]"

text \<open>\<open>A.map((row, i) => [...row, b[i]])\<close>.\<close>

definition augment :: "real list list \<Rightarrow> real list \<Rightarrow> real list list" where
  "augment A b = map (\<lambda>i. A ! i @ [b ! i]) [0..<length A]"

text \<open>Partial pivoting: the first row at or below \<open>i\<close> with the largest magnitude in
  column \<open>i\<close>.\<close>

definition findMaxRow :: "real list list \<Rightarrow> nat \<Rightarrow> nat \<Rightarrow> nat" where
  "findMaxRow M i n =
     fold (\<lambda>k maxRow. if \<bar>M ! k ! i\<bar> > \<bar>M ! maxRow ! i\<bar> then k else maxRow) [i + 1..<n] i"

definition swapRows :: "real list list \<Rightarrow> nat \<Rightarrow> nat \<Rightarrow> real list list" where
  "swapRows M i r = (M[i := M ! r])[r := M ! i]"

text \<open>The stability branch: \<open>M[i][i] = 1; M[i][n] = 0; M[i][j] = 0\<close> for
  \<open>i < j < n\<close>.\<close>

definition stabilizeRow :: "real list \<Rightarrow> nat \<Rightarrow> nat \<Rightarrow> real list" where
  "stabilizeRow row i n = fold (\<lambda>j r. r[j := 0]) [i + 1..<n] ((row[i := 1])[n := 0])"

text \<open>Elimination of row \<open>k\<close> with pivot row \<open>i\<close>; the factor \<open>c\<close> is computed once,
  before the inner loop.\<close>

definition elimRow :: "nat \<Rightarrow> nat \<Rightarrow> real list list \<Rightarrow> nat \<Rightarrow> real list list" where
  "elimRow i n M k =
     (let c = - (M ! k ! i) / (M ! i ! i)
      in M[k := fold (\<lambda>j r. if i = j then r[j := 0] else r[j := r ! j + c * (M ! i ! j)])
                  [i..<n + 1] (M ! k)])"

definition pivotTol :: real where
  "pivotTol = 1 / 10000000000"

text \<open>One iteration of the outer elimination loop.\<close>

definition elimStep :: "nat \<Rightarrow> nat \<Rightarrow> real list list \<Rightarrow> real list list" where
  "elimStep n i M =
     (let maxRow = findMaxRow M i n;
          M1 = swapRows M i maxRow
      in if \<bar>M1 ! i ! i\<bar> < pivotTol then M1[i := stabilizeRow (M1 ! i) i n]
         else fold (\<lambda>k M'. elimRow i n M' k) [i + 1..<n] M1)"

definition forwardElim :: "nat \<Rightarrow> real list list \<Rightarrow> real list list" where
  "forwardElim n M = fold (elimStep n) [0..<n] M"

definition backSubStep :: "real list list \<Rightarrow> nat \<Rightarrow> nat \<Rightarrow> real list \<Rightarrow> real list" where
  "backSubStep M n i x =
     x[i := (M ! i ! n - fold (\<lambda>j sum. sum + M ! i ! j * x ! j) [i + 1..<n] 0) / (M ! i ! i)]"

definition backSub :: "real list list \<Rightarrow> nat \<Rightarrow> real list" where
  "backSub M n = fold (backSubStep M n) (rev [0..<n]) (createVector n)"

definition solveLinearSystem :: "real list list \<Rightarrow> real list \<Rightarrow> real list" where
  "solveLinearSystem A b = (let n = length b in backSub (forwardElim n (augment A b)) n)"

section \<open>Connectivity repair (geometryGenerator.ts, autoConnectNodes)\<close>

text \<open>Distance from a point to a segment, with the parameter of the foot point.\<close>

definition getDist :: "real \<Rightarrow> real \<Rightarrow> real \<Rightarrow> real \<Rightarrow> real \<Rightarrow> real \<Rightarrow> real \<times> real" where
  "getDist px py x1 y1 x2 y2 =
     (let A = px - x1; B = py - y1; C = x2 - x1; D = y2 - y1;
          dot = A * C + B * D;
          len_sq = C * C + D * D;
          param = (if len_sq \<noteq> 0 then dot / len_sq else - 1);
          xx = (if param < 0 then x1 else if param > 1 then x2 else x1 + param * C);
          yy = (if param < 0 then y1 else if param > 1 then y2 else y1 + param * D);
          dx = px - xx; dy = py - yy
      in (sqrt (dx * dx + dy * dy), param))"

text \<open>
  The state the two nested \<open>forEach\<close> loops update: the id counter, the two output
  lists, and the number of \<open>Math.random\<close> calls made so far. The outcome of the
  \<open>k\<close>-th call, after \<open>toString(36).substr(2,9)\<close>, is the parameter \<open>rnd k\<close>.
\<close>

record ac_state =
  nextElId :: int
  newElements :: "element list"
  newLoads :: "load list"
  rndCount :: nat

definition findNode :: "node list \<Rightarrow> int \<Rightarrow> node option" where
  "findNode nodes i = find (\<lambda>n. nid n = i) nodes"

definition loadsOf :: "load list \<Rightarrow> element \<Rightarrow> load list" where
  "loadsOf elementLoads el = filter (\<lambda>l. elementId l = Some (eid el)) elementLoads"

text \<open>The body of \<open>relevantLoads.forEach\<close>: clone the load for segment \<open>elId\<close> with
  parametric range \<open>[prevT, currentT]\<close>.\<close>

definition cloneLoad :: "(nat \<Rightarrow> string) \<Rightarrow> int \<Rightarrow> real \<Rightarrow> real \<Rightarrow> load \<Rightarrow>
    ac_state \<Rightarrow> ac_state" where
  "cloneLoad rnd elId prevT currentT l st =
     (let lClone = l\<lparr> lid := ''auto-'' @ rnd (rndCount st), elementId := Some elId \<rparr>;
          st1 = st\<lparr> rndCount := Suc (rndCount st) \<rparr>
      in if ltype l = Distributed then st1\<lparr> newLoads := newLoads st1 @ [lClone] \<rparr>
         else
           (let loc = loc_or_half l in
            if loc \<ge> prevT - 1/10000 \<and> loc \<le> currentT + 1/10000 then
              (let segLen = currentT - prevT;
                   newLoc = (if segLen > 1/1000000 then (loc - prevT) / segLen else 0)
               in st1\<lparr> newLoads := newLoads st1 @
                        [lClone\<lparr> location := Some (max 0 (min 1 newLoc)) \<rparr>] \<rparr>)
            else st1))"

text \<open>The body of \<open>points.forEach\<close>, as a recursion over the remaining points; \<open>idx\<close>
  is the index of the head and \<open>len\<close> is \<open>points.length\<close>.\<close>

fun splitLoop :: "(nat \<Rightarrow> string) \<Rightarrow> load list \<Rightarrow> element \<Rightarrow> nat \<Rightarrow> nat \<Rightarrow>
    (node \<times> real) list \<Rightarrow> node \<Rightarrow> real \<Rightarrow> ac_state \<Rightarrow> ac_state" where
  "splitLoop rnd elementLoads el len idx [] currentStart prevT st = st"
| "splitLoop rnd elementLoads el len idx (pt # pts) currentStart prevT st =
     (let elId = nextElId st;
          isFirst = (idx = 0);
          isLast = (idx = len - 1);
          segmentEl = el\<lparr> eid := elId,
                          startNode := nid currentStart,
                          endNode := nid (fst pt),
                          releaseStart := (if isFirst then releaseStart el else Some False),
                          releaseEnd := (if isLast then releaseEnd el else Some False) \<rparr>;
          st1 = st\<lparr> nextElId := elId + 1, newElements := newElements st @ [segmentEl] \<rparr>;
          currentT = snd pt;
          relevantLoads = loadsOf elementLoads el;
          st2 = fold (cloneLoad rnd elId prevT currentT) relevantLoads st1
      in splitLoop rnd elementLoads el len (Suc idx) pts (fst pt) currentT st2)"

definition isSplitNode :: "node \<Rightarrow> node \<Rightarrow> node \<Rightarrow> bool" where
  "isSplitNode n1 n2 n =
     (if nid n = nid n1 \<or> nid n = nid n2 then False
      else (let res = getDist (nx n) (ny n) (nx n1) (ny n1) (nx n2) (ny n2)
            in fst res < 5/100 \<and> snd res > 1/100 \<and> snd res < 99/100))"

definition keepElement :: "load list \<Rightarrow> element \<Rightarrow> ac_state \<Rightarrow> ac_state" where
  "keepElement elementLoads el st =
     st\<lparr> newElements := newElements st @ [el],
         newLoads := newLoads st @ loadsOf elementLoads el \<rparr>"

text \<open>The body of \<open>elements.forEach\<close>. The comparator sort on \<open>t\<close> is stable, as
  \<open>sort_key\<close> is.\<close>

definition connectElement :: "(nat \<Rightarrow> string) \<Rightarrow> node list \<Rightarrow> load list \<Rightarrow> element \<Rightarrow>
    ac_state \<Rightarrow> ac_state" where
  "connectElement rnd nodes elementLoads el st =
     (case (findNode nodes (startNode el), findNode nodes (endNode el)) of
        (Some n1, Some n2) \<Rightarrow>
          (let splitNodes =
                 map (\<lambda>n. (n, snd (getDist (nx n) (ny n) (nx n1) (ny n1) (nx n2) (ny n2))))
                   (filter (isSplitNode n1 n2) nodes)
           in if length splitNodes = 0 then keepElement elementLoads el st
              else (let sorted = sort_key snd splitNodes;
                        points = sorted @ [(n2, 1)]
                    in splitLoop rnd elementLoads el (length points) 0 points n1 0 st))
      | _ \<Rightarrow> keepElement elementLoads el st)"

definition autoConnectNodes :: "(nat \<Rightarrow> string) \<Rightarrow> node list \<Rightarrow> element list \<Rightarrow> load list \<Rightarrow>
    node list \<times> element list \<times> load list" where
  "autoConnectNodes rnd nodes elements loads =
     (let st0 = \<lparr> nextElId = fold (\<lambda>e mx. max mx (eid e)) elements 0 + 1,
                  newElements = [],
                  newLoads = filter (\<lambda>l. truthy_id (nodeId l)) loads,
                  rndCount = 0 \<rparr>;
          elementLoads = filter (\<lambda>l. truthy_id (elementId l)) loads;
          st = fold (connectElement rnd nodes elementLoads) elements st0
      in (nodes, newElements st, newLoads st))"

section \<open>The solver pipeline (solver.ts, solveStructure)\<close>

subsection \<open>Node lookup\<close>

text \<open>\<open>nodeIndexMap\<close>: a later node with the same id overwrites an earlier one.
  \<open>getDofIndex\<close> returns the sentinel \<open>-1\<close> for an unknown id; the model returns
  \<open>None\<close>.\<close>

definition nodeIndexMap :: "node list \<Rightarrow> int \<Rightarrow> nat option" where
  "nodeIndexMap nodes = fold (\<lambda>(i, n) mp. mp(nid n \<mapsto> i)) (enumerate 0 nodes) Map.empty"

definition getDofIndex :: "node list \<Rightarrow> int \<Rightarrow> nat option" where
  "getDofIndex nodes nodeId' = map_option (\<lambda>idx. idx * 3) (nodeIndexMap nodes nodeId')"

definition elLength :: "node \<Rightarrow> node \<Rightarrow> real" where
  "elLength n1 n2 =
     (let dx = nx n2 - nx n1; dy = ny n2 - ny n1 in sqrt (dx * dx + dy * dy))"

subsection \<open>Element stiffness\<close>

text \<open>Unit conversion and the rigidity overrides: \<open>(effE, effA, effI)\<close>.\<close>

definition effProps :: "stiffness_type \<Rightarrow> element \<Rightarrow> real \<times> real \<times> real" where
  "effProps stiffnessType el =
     (let effE = elE el * 1000000;
          effA = elA el * (1 / 10000);
          effI = elI el * (1 / 1000000)
      in if stiffnessType = AxiallyRigid then (effE, effA * 10000, effI)
         else if stiffnessType = Rigid then (effE * 10000, effA, effI)
         else (effE, effA, effI))"

text \<open>Assignments \<open>K[r][c] = v\<close>, performed in the order listed.\<close>

definition setEntry :: "real list list \<Rightarrow> nat \<Rightarrow> nat \<Rightarrow> real \<Rightarrow> real list list" where
  "setEntry K r c v = K[r := (K ! r)[c := v]]"

definition assignAll :: "(nat \<times> nat \<times> real) list \<Rightarrow> real list list \<Rightarrow> real list list" where
  "assignAll entries K = fold (\<lambda>(r, c, v) K'. setEntry K' r c v) entries K"

definition kLocal :: "real \<Rightarrow> real \<Rightarrow> real \<Rightarrow> real \<Rightarrow> bool \<Rightarrow> bool \<Rightarrow> real list list" where
  "kLocal effE effA effI L relS relE =
     (let k_axial = effE * effA / L;
          axialEntries = [(0, 0, k_axial), (0, 3, - k_axial), (3, 0, - k_axial), (3, 3, k_axial)];
          k33 = 3 * effE * effI / (L * L * L);
          k32 = 3 * effE * effI / (L * L);
          k31 = 3 * effE * effI / L;
          kb1 = 12 * effE * effI / (L * L * L);
          kb2 = 6 * effE * effI / (L * L);
          kb3 = 4 * effE * effI / L;
          kb4 = 2 * effE * effI / L;
          bending =
            (if relS \<and> relE then []
             else if relS then
               [(1, 1, k33), (1, 4, - k33), (1, 5, k32),
                (4, 1, - k33), (4, 4, k33), (4, 5, - k32),
                (5, 1, k32), (5, 4, - k32), (5, 5, k31)]
             else if relE then
               [(1, 1, k33), (1, 2, k32), (1, 4, - k33),
                (2, 1, k32), (2, 2, k31), (2, 4, - k32),
                (4, 1, - k33), (4, 2, - k32), (4, 4, k33)]
             else
               [(1, 1, kb1), (1, 2, kb2), (1, 4, - kb1), (1, 5, kb2),
                (2, 1, kb2), (2, 2, kb3), (2, 4, - kb2), (2, 5, kb4),
                (4, 1, - kb1), (4, 2, - kb2), (4, 4, kb1), (4, 5, - kb2),
                (5, 1, kb2), (5, 2, kb4), (5, 4, - kb2), (5, 5, kb3)])
      in assignAll (axialEntries @ bending) (createMatrix 6 6))"

definition transT :: "real \<Rightarrow> real \<Rightarrow> real list list" where
  "transT c s =
     assignAll [(0, 0, c), (0, 1, s), (1, 0, - s), (1, 1, c), (2, 2, 1),
                (3, 3, c), (3, 4, s), (4, 3, - s), (4, 4, c), (5, 5, 1)] (createMatrix 6 6)"

text \<open>\<open>k_global_el[i][j] = \<Sum>a \<Sum>b T[a][i] * k_local[a][b] * T[b][j]\<close>, accumulated in the
  order of the two inner loops.\<close>

definition kGlobalEl :: "real list list \<Rightarrow> real list list \<Rightarrow> real list list" where
  "kGlobalEl T k_local =
     map (\<lambda>i. map (\<lambda>j. fold (\<lambda>(a, b) val. val + T ! a ! i * k_local ! a ! b * T ! b ! j)
                           (List.product [0..<6] [0..<6]) 0) [0..<6]) [0..<6]"

definition dofMap :: "nat \<Rightarrow> nat \<Rightarrow> nat list" where
  "dofMap idx1 idx2 = [idx1, idx1 + 1, idx1 + 2, idx2, idx2 + 1, idx2 + 2]"

definition addEntry :: "real list list \<Rightarrow> nat \<Rightarrow> nat \<Rightarrow> real \<Rightarrow> real list list" where
  "addEntry K r c v = K[r := (K ! r)[c := K ! r ! c + v]]"

definition scatter :: "real list list \<Rightarrow> nat list \<Rightarrow> real list list \<Rightarrow> real list list" where
  "scatter K mp kel =
     fold (\<lambda>(i, j) K'. addEntry K' (mp ! i) (mp ! j) (kel ! i ! j))
       (List.product [0..<6] [0..<6]) K"

text \<open>The global element stiffness of an element of length \<open>L\<close> and direction
  \<open>(c, s)\<close>.\<close>

definition elementStiffness :: "stiffness_type \<Rightarrow> element \<Rightarrow> real \<Rightarrow> real \<Rightarrow> real \<Rightarrow>
    real list list" where
  "elementStiffness stiffnessType el L c s =
     (case effProps stiffnessType el of (effE, effA, effI) \<Rightarrow>
        kGlobalEl (transT c s)
          (kLocal effE effA effI L (truthy (releaseStart el)) (truthy (releaseEnd el))))"

text \<open>The body of the assembly loop \<open>elements.forEach\<close>; each early \<open>return\<close> leaves
  the matrix unchanged.\<close>

definition assembleElement :: "node list \<Rightarrow> stiffness_type \<Rightarrow> element \<Rightarrow> real list list \<Rightarrow>
    real list list" where
  "assembleElement nodes stiffnessType el K =
     (case (getDofIndex nodes (startNode el), getDofIndex nodes (endNode el)) of
        (Some idx1, Some idx2) \<Rightarrow>
          (case (findNode nodes (startNode el), findNode nodes (endNode el)) of
             (Some n1, Some n2) \<Rightarrow>
               (let dx = nx n2 - nx n1; dy = ny n2 - ny n1;
                    L = sqrt (dx * dx + dy * dy)
                in if L < 1 / 1000000 then K
                   else (let c = dx / L; s = dy / L
                         in scatter K (dofMap idx1 idx2)
                              (elementStiffness stiffnessType el L c s)))
           | _ \<Rightarrow> K)
      | _ \<Rightarrow> K)"

definition assembleStiffness :: "node list \<Rightarrow> element list \<Rightarrow> stiffness_type \<Rightarrow> real list list" where
  "assembleStiffness nodes elements stiffnessType =
     fold (assembleElement nodes stiffnessType) elements
       (createMatrix (length nodes * 3) (length nodes * 3))"

subsection \<open>Fixed-end actions\<close>

record fea =
  fx1 :: real
  v1 :: real
  m1 :: real
  fx2 :: real
  v2 :: real
  m2 :: real

text \<open>Local components \<open>(wx, wy)\<close> or \<open>(Px, Py)\<close> of a load given in global axes.\<close>

definition decomp :: "real \<Rightarrow> real \<Rightarrow> load \<Rightarrow> real \<times> real" where
  "decomp c s l =
     (if dir_or_y l = DirX then (magnitude l * c, magnitude l * (- s))
      else (magnitude l * s, magnitude l * c))"

text \<open>Fixed-end actions of a load on a fully fixed segment, before the release
  adjustment.\<close>

definition feaBase :: "real \<Rightarrow> real \<Rightarrow> real \<Rightarrow> load \<Rightarrow> fea" where
  "feaBase L c s l =
     (case ltype l of
        Distributed \<Rightarrow>
          (let wx = fst (decomp c s l); wy = snd (decomp c s l)
           in \<lparr> fx1 = - wx * L / 2, v1 = - wy * L / 2, m1 = - wy * L * L / 12,
                fx2 = - wx * L / 2, v2 = - wy * L / 2, m2 = wy * L * L / 12 \<rparr>)
      | Point \<Rightarrow>
          (let a = loc_or_half l * L; b = L - a;
               Px = fst (decomp c s l); Py = snd (decomp c s l)
           in \<lparr> fx1 = - Px * b / L,
                v1 = - Py * b * b * (3 * a + b) / (L * L * L),
                m1 = - Py * a * b * b / (L * L),
                fx2 = - Px * a / L,
                v2 = - Py * a * a * (a + 3 * b) / (L * L * L),
                m2 = Py * a * a * b / (L * L) \<rparr>)
      | Moment \<Rightarrow>
          (let M = magnitude l; a = loc_or_half l * L; b = L - a
           in \<lparr> fx1 = 0,
                v1 = - 6 * M * a * b / (L * L * L),
                m1 = M * b * (2 * a - b) / (L * L),
                fx2 = 0,
                v2 = 6 * M * a * b / (L * L * L),
                m2 = M * a * (2 * b - a) / (L * L) \<rparr>))"

text \<open>The two \<open>if\<close> statements of the release adjustment, in the source's order.\<close>

definition releaseStartAdjust :: "real \<Rightarrow> fea \<Rightarrow> fea" where
  "releaseStartAdjust L f =
     (let dm1 = - m1 f; dV = - (15 / 10) * dm1 / L
      in f\<lparr> m1 := m1 f + dm1, m2 := m2 f + (1 / 2) * dm1, v1 := v1 f + dV, v2 := v2 f - dV \<rparr>)"

definition releaseEndAdjust :: "real \<Rightarrow> real \<Rightarrow> real \<Rightarrow> bool \<Rightarrow> load \<Rightarrow> fea \<Rightarrow> fea" where
  "releaseEndAdjust L c s relS l f =
     (let dm2 = - m2 f; f1 = f\<lparr> m2 := m2 f + dm2 \<rparr>
      in if \<not> relS then
           (let dV1 = - (15 / 10) * dm2 / L
            in f1\<lparr> m1 := m1 f1 + (1 / 2) * dm2, v1 := v1 f1 + dV1, v2 := v2 f1 - dV1 \<rparr>)
         else
           (let f2 =
              (case ltype l of
                 Distributed \<Rightarrow>
                   (let wy = snd (decomp c s l) in f1\<lparr> v1 := - wy * L / 2, v2 := - wy * L / 2 \<rparr>)
               | Point \<Rightarrow>
                   (let a = loc_or_half l * L; b = L - a; Py = snd (decomp c s l)
                    in f1\<lparr> v1 := - Py * b / L, v2 := - Py * a / L \<rparr>)
               | Moment \<Rightarrow>
                   (let M = magnitude l in f1\<lparr> v1 := - M / L, v2 := M / L \<rparr>))
            in f2\<lparr> fx1 := 0, fx2 := 0, m1 := 0, m2 := 0 \<rparr>))"

definition releaseAdjust :: "real \<Rightarrow> real \<Rightarrow> real \<Rightarrow> element \<Rightarrow> load \<Rightarrow> fea \<Rightarrow> fea" where
  "releaseAdjust L c s el l f =
     (let f1 = (if truthy (releaseStart el) then releaseStartAdjust L f else f)
      in if truthy (releaseEnd el) then releaseEndAdjust L c s (truthy (releaseStart el)) l f1
         else f1)"

definition femLocal :: "real \<Rightarrow> real \<Rightarrow> real \<Rightarrow> element \<Rightarrow> load \<Rightarrow> fea" where
  "femLocal L c s el l = releaseAdjust L c s el l (feaBase L c s l)"

subsection \<open>Load vector\<close>

definition addAt :: "real list \<Rightarrow> nat \<Rightarrow> real \<Rightarrow> real list" where
  "addAt F i v = F[i := F ! i + v]"

definition subAt :: "real list \<Rightarrow> nat \<Rightarrow> real \<Rightarrow> real list" where
  "subAt F i v = F[i := F ! i - v]"

text \<open>\<open>F_global -= T\<^sup>T * fem_local\<close>, the six updates in the source's order.\<close>

definition subtractFem :: "real list \<Rightarrow> nat list \<Rightarrow> real \<Rightarrow> real \<Rightarrow> fea \<Rightarrow> real list" where
  "subtractFem F mp c s f =
     (let F0 = subAt F (mp ! 0) (c * fx1 f - s * v1 f);
          F1 = subAt F0 (mp ! 1) (s * fx1 f + c * v1 f);
          F2 = subAt F1 (mp ! 2) (m1 f);
          F3 = subAt F2 (mp ! 3) (c * fx2 f - s * v2 f);
          F4 = subAt F3 (mp ! 4) (s * fx2 f + c * v2 f)
      in subAt F4 (mp ! 5) (m2 f))"

definition applyNodeLoad :: "node list \<Rightarrow> load \<Rightarrow> int \<Rightarrow> real list \<Rightarrow> real list" where
  "applyNodeLoad nodes l nodeId' F =
     (case getDofIndex nodes nodeId' of
        None \<Rightarrow> F
      | Some idx \<Rightarrow>
          if ltype l = Moment then addAt F (idx + 2) (magnitude l)
          else if dir_or_y l = DirX then addAt F idx (magnitude l)
          else addAt F (idx + 1) (magnitude l))"

definition applyElementLoad :: "node list \<Rightarrow> element list \<Rightarrow> load \<Rightarrow> int \<Rightarrow> real list \<Rightarrow> real list" where
  "applyElementLoad nodes elements l elementId' F =
     (case find (\<lambda>e. eid e = elementId') elements of
        None \<Rightarrow> F
      | Some el \<Rightarrow>
          (case (getDofIndex nodes (startNode el), getDofIndex nodes (endNode el)) of
             (Some idx1, Some idx2) \<Rightarrow>
               (case (findNode nodes (startNode el), findNode nodes (endNode el)) of
                  (Some n1, Some n2) \<Rightarrow>
                    (let dx = nx n2 - nx n1; dy = ny n2 - ny n1;
                         L = sqrt (dx * dx + dy * dy);
                         c = dx / L; s = dy / L
                     in subtractFem F (dofMap idx1 idx2) c s (femLocal L c s el l))
                | _ \<Rightarrow> F)
           | _ \<Rightarrow> F))"

text \<open>The body of \<open>loads.forEach\<close>.\<close>

definition applyLoad :: "node list \<Rightarrow> element list \<Rightarrow> load \<Rightarrow> real list \<Rightarrow> real list" where
  "applyLoad nodes elements l F =
     (if \<not> truthy_id (elementId l) \<and> truthy_id (nodeId l) then
        (case nodeId l of Some i \<Rightarrow> applyNodeLoad nodes l i F | None \<Rightarrow> F)
      else if truthy_id (elementId l) then
        (case elementId l of Some i \<Rightarrow> applyElementLoad nodes elements l i F | None \<Rightarrow> F)
      else F)"

definition assembleLoads :: "node list \<Rightarrow> element list \<Rightarrow> load list \<Rightarrow> real list" where
  "assembleLoads nodes elements loads =
     fold (applyLoad nodes elements) loads (createVector (length nodes * 3))"

subsection \<open>Boundary conditions\<close>

text \<open>The body of \<open>if (isConstrained)\<close> for the DOF \<open>k\<close>.\<close>

definition restrainDof :: "nat \<Rightarrow> nat \<Rightarrow> real list list \<times> real list \<Rightarrow> real list list \<times> real list" where
  "restrainDof totalDOF k KF =
     (case KF of (K, F) \<Rightarrow>
        (setEntry (fold (\<lambda>j K'. setEntry (setEntry K' k j 0) j k 0) [0..<totalDOF] K) k k 1,
         F[k := 0]))"

text \<open>The body of \<open>nodes.forEach\<close>; the lookup of a listed node's own id always
  succeeds, so the \<open>None\<close> branch is never taken.\<close>

definition restrainNode :: "node list \<Rightarrow> nat \<Rightarrow> node \<Rightarrow> real list list \<times> real list \<Rightarrow>
    real list list \<times> real list" where
  "restrainNode nodes totalDOF nd KF =
     (case nodeIndexMap nodes (nid nd) of
        None \<Rightarrow> KF
      | Some i \<Rightarrow>
          (case restraints nd of (r0, r1, r2) \<Rightarrow>
             fold (\<lambda>(isConstrained, dofOffset) KF'.
                     if isConstrained then restrainDof totalDOF (i * 3 + dofOffset) KF' else KF')
               [(r0, 0), (r1, 1), (r2, 2)] KF))"

definition applyBoundary :: "node list \<Rightarrow> real list list \<Rightarrow> real list \<Rightarrow> real list list \<times> real list" where
  "applyBoundary nodes K_global F_global =
     fold (restrainNode nodes (length nodes * 3)) nodes (K_global, F_global)"

text \<open>The displacement vector \<open>U\<close> of step 4.\<close>

definition solveDisplacements :: "node list \<Rightarrow> element list \<Rightarrow> load list \<Rightarrow> stiffness_type \<Rightarrow>
    real list" where
  "solveDisplacements nodes elements loads stiffnessType =
     (case applyBoundary nodes (assembleStiffness nodes elements stiffnessType)
             (assembleLoads nodes elements loads) of
        (K_reduced, F_reduced) \<Rightarrow> solveLinearSystem K_reduced F_reduced)"

subsection \<open>Post-processing\<close>

record reaction =
  r_nodeId :: int
  r_fx :: real
  r_fy :: real
  r_m :: real

record station =
  st_x :: real
  st_deflectionY :: real
  st_axial :: real
  st_shear :: real
  st_moment :: real
  st_globalX :: real
  st_globalY :: real

record element_result =
  res_elementId :: int
  stations :: "station list"
  maxAxial :: real
  maxMoment :: real
  maxShear :: real
  res_u_local :: "real list"
  res_startForces :: start_forces

record analysis_result =
  res_elements :: "element_result list"
  maxDeflection :: real
  reactions :: "reaction list"

text \<open>The body of the reaction loop: one entry for a node with some restraint.\<close>

definition nodeReaction :: "node list \<Rightarrow> real list \<Rightarrow> real list \<Rightarrow> node \<Rightarrow> reaction list" where
  "nodeReaction nodes KU F_global nd =
     (case nodeIndexMap nodes (nid nd) of
        None \<Rightarrow> []
      | Some i \<Rightarrow>
          (let idx = i * 3 in
           case restraints nd of (r0, r1, r2) \<Rightarrow>
             if r0 \<or> r1 \<or> r2 then
               [\<lparr> r_nodeId = nid nd,
                   r_fx = cleanValue (if r0 then KU ! idx - F_global ! idx else 0),
                   r_fy = cleanValue (if r1 then KU ! (idx + 1) - F_global ! (idx + 1) else 0),
                   r_m = cleanValue (if r2 then KU ! (idx + 2) - F_global ! (idx + 2) else 0) \<rparr>]
             else []))"

text \<open>Local end displacements \<open>u_local\<close> of an element.\<close>

definition uLocal :: "real list \<Rightarrow> nat \<Rightarrow> nat \<Rightarrow> real \<Rightarrow> real \<Rightarrow> real list" where
  "uLocal U idx1 idx2 c s =
     (let u_global_el = [U ! idx1, U ! (idx1 + 1), U ! (idx1 + 2),
                         U ! idx2, U ! (idx2 + 1), U ! (idx2 + 2)]
      in [c * u_global_el ! 0 + s * u_global_el ! 1,
          - s * u_global_el ! 0 + c * u_global_el ! 1,
          u_global_el ! 2,
          c * u_global_el ! 3 + s * u_global_el ! 4,
          - s * u_global_el ! 3 + c * u_global_el ! 4,
          u_global_el ! 5])"

text \<open>\<open>f_stiff = k_local * u_local\<close>.\<close>

definition fStiff :: "real list list \<Rightarrow> real list \<Rightarrow> real list" where
  "fStiff k_local u_local =
     map (\<lambda>r. fold (\<lambda>col acc. acc + k_local ! r ! col * u_local ! col) [0..<6] 0) [0..<6]"

text \<open>The accumulated fixed-end actions \<open>fem\<close> of the loads of one element.\<close>

definition femSum :: "real \<Rightarrow> real \<Rightarrow> real \<Rightarrow> element \<Rightarrow> load list \<Rightarrow> real list" where
  "femSum L c s el elLoads =
     fold (\<lambda>l fem. (let f = femLocal L c s el l
                     in [fem ! 0 + fx1 f, fem ! 1 + v1 f, fem ! 2 + m1 f,
                         fem ! 3 + fx2 f, fem ! 4 + v2 f, fem ! 5 + m2 f]))
       elLoads [0, 0, 0, 0, 0, 0]"

text \<open>Total local end forces \<open>F_total\<close>, before any cleanup.\<close>

definition fTotal :: "stiffness_type \<Rightarrow> element \<Rightarrow> real \<Rightarrow> real \<Rightarrow> real \<Rightarrow> real list \<Rightarrow>
    load list \<Rightarrow> real list" where
  "fTotal stiffnessType el L c s u_local elLoads =
     (case effProps stiffnessType el of (effE, effA, effI) \<Rightarrow>
        (let k_local = kLocal effE effA effI L (truthy (releaseStart el)) (truthy (releaseEnd el));
             f_stiff = fStiff k_local u_local;
             fem = femSum L c s el elLoads
         in map (\<lambda>i. f_stiff ! i + fem ! i) [0..<6]))"

text \<open>The station positions: the members of the set \<open>criticalX\<close>, sorted ascending.\<close>

definition stationXs :: "real \<Rightarrow> load list \<Rightarrow> real list" where
  "stationXs L elLoads =
     sort (remdups
       ([0, L] @
        concat (map (\<lambda>l. (let loc = loc_or_half l * L
                            in if loc > 0 \<and> loc < L
                               then [loc, max 0 (loc - 1 / 1000), min L (loc + 1 / 1000)]
                               else [])) elLoads) @
        map (\<lambda>i. real i * L / 100) [0..<101]))"

definition mkStation :: "node \<Rightarrow> real \<Rightarrow> real \<Rightarrow> real \<Rightarrow> real list \<Rightarrow> start_forces \<Rightarrow>
    load list \<Rightarrow> real \<Rightarrow> station" where
  "mkStation n1 L c s u_local startForces elLoads x =
     (let vals = calculateExactValues x L c s u_local startForces elLoads;
          gx = nx n1 + x * c - (deflectionY vals / 1000) * s;
          gy = ny n1 + x * s + (deflectionY vals / 1000) * c
      in \<lparr> st_x = x, st_deflectionY = deflectionY vals, st_axial = axial vals,
           st_shear = shear vals, st_moment = moment vals,
           st_globalX = gx, st_globalY = gy \<rparr>)"

text \<open>A running maximum \<open>if (Math.abs(v) > m) m = Math.abs(v)\<close> over the stations.\<close>

definition runMax :: "(station \<Rightarrow> real) \<Rightarrow> station list \<Rightarrow> real \<Rightarrow> real" where
  "runMax f sts m0 = fold (\<lambda>st m. if \<bar>f st\<bar> > m then \<bar>f st\<bar> else m) sts m0"

text \<open>The body of the result loop \<open>elements.forEach\<close>: the element's result (none when a
  node id is unknown) and the updated global \<open>maxDeflection\<close>.\<close>

definition elementResult :: "node list \<Rightarrow> load list \<Rightarrow> stiffness_type \<Rightarrow> real list \<Rightarrow> element \<Rightarrow>
    element_result list \<times> real \<Rightarrow> element_result list \<times> real" where
  "elementResult nodes loads stiffnessType U el acc =
     (case acc of (results, maxDefl) \<Rightarrow>
       (case (getDofIndex nodes (startNode el), getDofIndex nodes (endNode el)) of
          (Some idx1, Some idx2) \<Rightarrow>
            (case (findNode nodes (startNode el), findNode nodes (endNode el)) of
               (Some n1, Some n2) \<Rightarrow>
                 (let dx = nx n2 - nx n1; dy = ny n2 - ny n1;
                      L = sqrt (dx * dx + dy * dy);
                      c = dx / L; s = dy / L;
                      u_local = uLocal U idx1 idx2 c s;
                      elLoads = filter (\<lambda>l. elementId l = Some (eid el)) loads;
                      F_total = fTotal stiffnessType el L c s u_local elLoads;
                      startForces = \<lparr> sf_fx = cleanValue (F_total ! 0),
                                      sf_fy = cleanValue (F_total ! 1),
                                      sf_m = cleanValue (F_total ! 2) \<rparr>;
                      plotPoints = map (mkStation n1 L c s u_local startForces elLoads)
                                     (stationXs L elLoads)
                  in (results @
                        [\<lparr> res_elementId = eid el,
                            stations = plotPoints,
                            maxAxial = cleanValue (runMax st_axial plotPoints 0),
                            maxMoment = cleanValue (runMax st_moment plotPoints 0),
                            maxShear = cleanValue (runMax st_shear plotPoints 0),
                            res_u_local = u_local,
                            res_startForces = startForces \<rparr>],
                      runMax st_deflectionY plotPoints maxDefl))
             | _ \<Rightarrow> acc)
        | _ \<Rightarrow> acc))"

definition solveStructure :: "node list \<Rightarrow> element list \<Rightarrow> load list \<Rightarrow> stiffness_type \<Rightarrow>
    analysis_result" where
  "solveStructure nodes elements loads stiffnessType =
     (let K_global = assembleStiffness nodes elements stiffnessType;
          F_global = assembleLoads nodes elements loads;
          U = solveDisplacements nodes elements loads stiffnessType;
          KU = multiplyMatrixVector K_global U;
          reacts = concat (map (nodeReaction nodes KU F_global) nodes);
          res = fold (elementResult nodes loads stiffnessType U) elements ([], 0)
      in \<lparr> res_elements = fst res,
           maxDeflection = cleanValue (snd res),
           reactions = reacts \<rparr>)"

section \<open>Equilibrium of a loaded segment\<close>

text \<open>
  Statics of the loaded segment in local axes (\<open>x\<close> along the element, \<open>y\<close> a quarter
  turn counter-clockwise, moments counter-clockwise, as the transformation to global
  axes fixes them): the transverse resultant of the load, its moment about the start
  node, and the two residuals of the end actions \<open>v1, m1\<close> at \<open>x = 0\<close> and
  \<open>v2, m2\<close> at \<open>x = L\<close>. The segment is in equilibrium when both residuals are \<open>0\<close>.
\<close>

definition loadForce :: "real \<Rightarrow> real \<Rightarrow> real \<Rightarrow> load \<Rightarrow> real" where
  "loadForce L c s l =
     (case ltype l of
        Distributed \<Rightarrow> snd (decomp c s l) * L
      | Point \<Rightarrow> snd (decomp c s l)
      | Moment \<Rightarrow> 0)"

definition loadMoment :: "real \<Rightarrow> real \<Rightarrow> real \<Rightarrow> load \<Rightarrow> real" where
  "loadMoment L c s l =
     (case ltype l of
        Distributed \<Rightarrow> snd (decomp c s l) * L * (L / 2)
      | Point \<Rightarrow> snd (decomp c s l) * (loc_or_half l * L)
      | Moment \<Rightarrow> magnitude l)"

definition forceResidual :: "real \<Rightarrow> real \<Rightarrow> real \<Rightarrow> load \<Rightarrow> fea \<Rightarrow> real" where
  "forceResidual L c s l f = v1 f + v2 f + loadForce L c s l"

definition momentResidual :: "real \<Rightarrow> real \<Rightarrow> real \<Rightarrow> load \<Rightarrow> fea \<Rightarrow> real" where
  "momentResidual L c s l f = m1 f + m2 f + v2 f * L + loadMoment L c s l"

section \<open>Properties of calculateExactValues\<close>

lemma clampX_below: "xInput < 0 \<Longrightarrow> clampX xInput L = clampX 0 L"
  by (simp add: clampX_def Let_def max_def min_def)

lemma clampX_above: "xInput > L \<Longrightarrow> clampX xInput L = clampX L L"
  by (simp add: clampX_def Let_def max_def min_def)

text \<open>The position that is used, by cases on the element length and the input.\<close>

lemma clampX_cases:
  "0 \<le> L \<Longrightarrow>
   clampX x L = (if L < 1/10000 then L else if x < 1/10000 then 0
                 else if L - 1/10000 < x then L else x)"
  by (auto simp add: clampX_def Let_def max_def min_def)

lemma calc_cong:
  "clampX x1 L = clampX x2 L \<Longrightarrow>
   calculateExactValues x1 L c s u sf ls = calculateExactValues x2 L c s u sf ls"
  by (simp add: calculateExactValues_def)

lemma calc_at:
  "calculateExactValues x L c s u sf ls =
     \<lparr> deflectionY = cleanValue (rawDeflection (clampX x L) L u * 1000),
       axial = cleanValue (fst (rawForces (clampX x L) L c s sf ls)),
       shear = cleanValue (fst (snd (rawForces (clampX x L) L c s sf ls))),
       moment = cleanValue (snd (snd (rawForces (clampX x L) L c s sf ls))) \<rparr>"
  by (simp add: calculateExactValues_def Let_def)

text \<open>
  C10 (as amended). For an element of length \<open>L \<ge> 0\<close>, \<open>calculateExactValues\<close>
  returns a value for every position and evaluates at a clamped position: a negative
  position gives the values at \<open>x = 0\<close> and a position beyond \<open>L\<close> the values at
  \<open>x = L\<close>. On an element of length at least \<open>1e-4\<close> a position within \<open>1e-4\<close> of
  the start is snapped exactly to \<open>0\<close>. A position within \<open>1e-4\<close> of the end is
  snapped exactly to \<open>L\<close> when the position is at least \<open>1e-4\<close> or the element is
  shorter than \<open>1e-4\<close>. In full: on an element shorter than \<open>1e-4\<close> every position
  is evaluated at \<open>L\<close>; otherwise a position below \<open>1e-4\<close> is evaluated at \<open>0\<close>
  (also when it is within \<open>1e-4\<close> of \<open>L\<close>), a position above \<open>L - 1e-4\<close> at
  \<open>L\<close>, and any other position at itself. The four reported values are the cleaned
  deflection and internal forces at that position.
\<close>

theorem C10_clamp_amended:
  assumes "0 \<le> L"
  shows
   "(xa < 0 \<longrightarrow>
      calculateExactValues xa L c s u sf ls = calculateExactValues 0 L c s u sf ls) \<and>
    (L < xb \<longrightarrow>
      calculateExactValues xb L c s u sf ls = calculateExactValues L L c s u sf ls) \<and>
    (\<bar>xs\<bar> < 1/10000 \<and> 1/10000 \<le> L \<longrightarrow> clampX xs L = 0) \<and>
    (\<bar>xe - L\<bar> < 1/10000 \<and> (1/10000 \<le> xe \<or> L < 1/10000) \<longrightarrow> clampX xe L = L) \<and>
    clampX x L = (if L < 1/10000 then L else if x < 1/10000 then 0
                  else if L - 1/10000 < x then L else x) \<and>
    calculateExactValues x L c s u sf ls =
      \<lparr> deflectionY = cleanValue (rawDeflection (clampX x L) L u * 1000),
        axial = cleanValue (fst (rawForces (clampX x L) L c s sf ls)),
        shear = cleanValue (fst (snd (rawForces (clampX x L) L c s sf ls))),
        moment = cleanValue (snd (snd (rawForces (clampX x L) L c s sf ls))) \<rparr>"
proof (intro conjI impI)
  assume "xa < 0"
  then show "calculateExactValues xa L c s u sf ls = calculateExactValues 0 L c s u sf ls"
    by (intro calc_cong clampX_below)
next
  assume "L < xb"
  then show "calculateExactValues xb L c s u sf ls = calculateExactValues L L c s u sf ls"
    by (intro calc_cong clampX_above)
next
  assume "\<bar>xs\<bar> < 1/10000 \<and> 1/10000 \<le> L"
  then show "clampX xs L = 0"
    using assms by (auto simp add: clampX_cases)
next
  assume "\<bar>xe - L\<bar> < 1/10000 \<and> (1/10000 \<le> xe \<or> L < 1/10000)"
  then show "clampX xe L = L"
    using assms by (auto simp add: clampX_cases)
next
  show "clampX x L = (if L < 1/10000 then L else if x < 1/10000 then 0
                  else if L - 1/10000 < x then L else x)"
    using assms by (rule clampX_cases)
next
  show "calculateExactValues x L c s u sf ls =
      \<lparr> deflectionY = cleanValue (rawDeflection (clampX x L) L u * 1000),
        axial = cleanValue (fst (rawForces (clampX x L) L c s sf ls)),
        shear = cleanValue (fst (snd (rawForces (clampX x L) L c s sf ls))),
        moment = cleanValue (snd (snd (rawForces (clampX x L) L c s sf ls))) \<rparr>"
    by (rule calc_at)
qed

text \<open>An element of length \<open>2\<close> with a unit end displacement: a negative position, a
  position beyond the end, one near the start, one near the end and the midpoint.\<close>

theorem C10_clamp_amended_witness:
  "(0::real) \<le> 2 \<and>
   calculateExactValues (-1) 2 1 0 [0,0,0,0,1,0] \<lparr>sf_fx = 0, sf_fy = 0, sf_m = 0\<rparr> []
     = calculateExactValues 0 2 1 0 [0,0,0,0,1,0] \<lparr>sf_fx = 0, sf_fy = 0, sf_m = 0\<rparr> [] \<and>
   calculateExactValues 3 2 1 0 [0,0,0,0,1,0] \<lparr>sf_fx = 0, sf_fy = 0, sf_m = 0\<rparr> []
     = calculateExactValues 2 2 1 0 [0,0,0,0,1,0] \<lparr>sf_fx = 0, sf_fy = 0, sf_m = 0\<rparr> [] \<and>
   clampX (1/100000) 2 = 0 \<and>
   clampX (199999/100000) 2 = 2 \<and>
   clampX 1 2 = 1 \<and>
   calculateExactValues 1 2 1 0 [0,0,0,0,1,0] \<lparr>sf_fx = 0, sf_fy = 0, sf_m = 0\<rparr> [] =
      \<lparr> deflectionY = cleanValue (rawDeflection (clampX 1 2) 2 [0,0,0,0,1,0] * 1000),
        axial = cleanValue (fst (rawForces (clampX 1 2) 2 1 0
                  \<lparr>sf_fx = 0, sf_fy = 0, sf_m = 0\<rparr> [])),
        shear = cleanValue (fst (snd (rawForces (clampX 1 2) 2 1 0
                  \<lparr>sf_fx = 0, sf_fy = 0, sf_m = 0\<rparr> []))),
        moment = cleanValue (snd (snd (rawForces (clampX 1 2) 2 1 0
                  \<lparr>sf_fx = 0, sf_fy = 0, sf_m = 0\<rparr> []))) \<rparr>"
  using C10_clamp_amended [where L = 2 and xa = "-1" and xb = 3 and xs = "1/100000"
      and xe = "199999/100000" and x = 1 and c = 1 and s = 0 and u = "[0,0,0,0,1,0]"
      and sf = "\<lparr>sf_fx = 0, sf_fy = 0, sf_m = 0\<rparr>" and ls = "[]"]
  by simp

text \<open>
  C10 (as stated) fails at both ends of a short element. With \<open>L = 0.00015\<close> the
  position \<open>0.00009\<close> is within \<open>1e-4\<close> of the end \<open>L\<close>, but it is snapped to
  \<open>0\<close>, and the reported deflection is the one at \<open>x = 0\<close> (\<open>0\<close>), not the one
  at \<open>x = L\<close> (\<open>1000\<close> mm for a unit end displacement). With \<open>L = 0.00005\<close> the
  position \<open>0\<close> is snapped to \<open>L\<close>, not to the start: for a unit start
  displacement the deflection at \<open>x = 0\<close> is \<open>1000\<close> mm and the reported one is
  \<open>0\<close>.
\<close>

theorem C10_clamp_counterexample:
  "\<bar>(9/100000::real) - 15/100000\<bar> < 1/10000 \<and>
   clampX (9/100000) (15/100000) = 0 \<and>
   clampX (9/100000) (15/100000) \<noteq> 15/100000 \<and>
   deflectionY (calculateExactValues (9/100000) (15/100000) 1 0 [0,0,0,0,1,0]
       \<lparr>sf_fx = 0, sf_fy = 0, sf_m = 0\<rparr> []) = 0 \<and>
   deflectionY (calculateExactValues (15/100000) (15/100000) 1 0 [0,0,0,0,1,0]
       \<lparr>sf_fx = 0, sf_fy = 0, sf_m = 0\<rparr> []) = 1000 \<and>
   \<bar>0::real\<bar> < 1/10000 \<and>
   clampX 0 (5/100000) = 5/100000 \<and>
   clampX 0 (5/100000) \<noteq> 0 \<and>
   cleanValue (rawDeflection 0 (5/100000) [0,1,0,0,0,0] * 1000) = 1000 \<and>
   deflectionY (calculateExactValues 0 (5/100000) 1 0 [0,1,0,0,0,0]
       \<lparr>sf_fx = 0, sf_fy = 0, sf_m = 0\<rparr> []) = 0"
  by (simp add: calculateExactValues_def clampX_def rawDeflection_def Let_def
        cleanValue_def js_round_def)

section \<open>Properties of autoConnectNodes\<close>

text \<open>
  C9. \<open>autoConnectNodes\<close> never creates, deletes or repositions nodes: the node list
  of the returned triple is the input node list.
\<close>

theorem C9_nodes_unchanged:
  "fst (autoConnectNodes rnd nodes elements loads) = nodes"
  by (simp add: autoConnectNodes_def Let_def)
section \<open>Excluded elements\<close>

lemma nodeIndexMap_dom_aux:
  "dom (fold (\<lambda>(i, n) mp. mp(nid n \<mapsto> i)) (enumerate off ns) m0) = dom m0 \<union> nid ` set ns"
  by (induction ns arbitrary: off m0) (auto simp del: fun_upd_apply)

lemma nodeIndexMap_None: "nodeIndexMap nodes k = None \<longleftrightarrow> k \<notin> nid ` set nodes"
proof -
  have "dom (nodeIndexMap nodes) = nid ` set nodes"
    using nodeIndexMap_dom_aux [of 0 nodes Map.empty] by (simp add: nodeIndexMap_def)
  then show ?thesis by (metis domIff)
qed

lemma getDofIndex_None: "getDofIndex nodes k = None \<longleftrightarrow> k \<notin> nid ` set nodes"
  by (simp add: getDofIndex_def nodeIndexMap_None)

text \<open>An element with an unknown node id, or one shorter than \<open>1e-6\<close>, adds nothing to
  the stiffness matrix.\<close>

lemma missing_node_no_stiffness:
  "startNode el \<notin> nid ` set nodes \<or> endNode el \<notin> nid ` set nodes \<Longrightarrow>
   assembleElement nodes st el K = K"
  by (auto simp: assembleElement_def getDofIndex_None [symmetric] split: option.splits)

lemma short_element_no_stiffness:
  "findNode nodes (startNode el) = Some n1 \<Longrightarrow> findNode nodes (endNode el) = Some n2 \<Longrightarrow>
   elLength n1 n2 < 1 / 1000000 \<Longrightarrow> assembleElement nodes st el K = K"
  by (auto simp: assembleElement_def elLength_def Let_def split: option.splits)

text \<open>A load on an element with an unknown node id adds nothing to the load vector.\<close>

lemma missing_node_no_load:
  "elementId l = Some i \<Longrightarrow> i \<noteq> 0 \<Longrightarrow> find (\<lambda>e. eid e = i) elements = Some el \<Longrightarrow>
   startNode el \<notin> nid ` set nodes \<or> endNode el \<notin> nid ` set nodes \<Longrightarrow>
   applyLoad nodes elements l F = F"
  by (auto simp: applyLoad_def applyElementLoad_def truthy_id_def getDofIndex_None [symmetric]
      split: option.splits)

lemma sqrt_tiny: "sqrt (1 / 1099511627776) = 1 / 1048576"
  by (rule real_sqrt_unique) (simp_all add: power2_eq_square)

lemma list_update_Cons_numeral:
  "(x # xs)[numeral k := y] = x # xs[pred_numeral k := y]"
  by (simp add: numeral_eq_Suc)

lemma replicate_numeral: "replicate (numeral k) x = x # replicate (pred_numeral k) x"
  by (simp add: numeral_eq_Suc)

text \<open>
  C8 fails for a load on a short element. The two nodes are \<open>2\<^sup>-\<^sup>2\<^sup>0\<close> apart, below the
  \<open>1e-6\<close> threshold: the element adds nothing to the stiffness matrix, but the load
  pass has no length check, and a unit point load on the element puts \<open>1/2\<close> on each
  transverse DOF and \<open>\<plusminus>2\<^sup>-\<^sup>2\<^sup>3\<close> on each rotation of the global load vector.
\<close>

theorem C8_load_on_short_element:
  "elLength \<lparr>nid = 1, nx = 0, ny = 0, restraints = (True, True, True)\<rparr>
            \<lparr>nid = 2, nx = 1 / 1048576, ny = 0, restraints = (True, True, True)\<rparr> < 1 / 1000000 \<and>
   assembleStiffness
     [\<lparr>nid = 1, nx = 0, ny = 0, restraints = (True, True, True)\<rparr>,
      \<lparr>nid = 2, nx = 1 / 1048576, ny = 0, restraints = (True, True, True)\<rparr>]
     [\<lparr>eid = 1, startNode = 1, endNode = 2, elE = 200, elA = 50, elI = 200,
       releaseStart = None, releaseEnd = None\<rparr>] Elastic = createMatrix 6 6 \<and>
   assembleLoads
     [\<lparr>nid = 1, nx = 0, ny = 0, restraints = (True, True, True)\<rparr>,
      \<lparr>nid = 2, nx = 1 / 1048576, ny = 0, restraints = (True, True, True)\<rparr>]
     [\<lparr>eid = 1, startNode = 1, endNode = 2, elE = 200, elA = 50, elI = 200,
       releaseStart = None, releaseEnd = None\<rparr>]
     [\<lparr>lid = ''p'', elementId = Some 1, nodeId = None, ltype = Point, magnitude = 1,
       ldirection = None, location = None\<rparr>]
     = [0, 1 / 2, 1 / 8388608, 0, 1 / 2, - (1 / 8388608)]"
  by (simp add: elLength_def assembleStiffness_def assembleElement_def assembleLoads_def
      applyLoad_def applyElementLoad_def getDofIndex_def nodeIndexMap_def findNode_def
      truthy_id_def sqrt_tiny subtractFem_def subAt_def dofMap_def femLocal_def
      releaseAdjust_def feaBase_def decomp_def dir_or_y_def loc_or_half_def truthy_def
      createVector_def createMatrix_def Let_def list_update_Cons_numeral replicate_numeral)

section \<open>Release adjustment of the fixed-end actions\<close>

text \<open>The fixed-end actions of a distributed or a point load on a fully fixed segment
  are in equilibrium under these conventions.\<close>

lemma feaBase_equilibrium:
  assumes "L \<noteq> 0" "ltype l \<noteq> Moment"
  shows "forceResidual L c s l (feaBase L c s l) = 0 \<and>
         momentResidual L c s l (feaBase L c s l) = 0"
proof (cases "ltype l")
  case Point
  have "forceResidual L c s l (feaBase L c s l) = 0"
    using assms(1) Point
    by (simp add: forceResidual_def feaBase_def loadForce_def Let_def field_simps)
  moreover have "momentResidual L c s l (feaBase L c s l) = 0"
    using assms(1) Point
    by (simp add: momentResidual_def feaBase_def loadMoment_def Let_def field_simps)
  ultimately show ?thesis by simp
next
  case Distributed
  then show ?thesis using assms(1)
    by (simp add: forceResidual_def momentResidual_def feaBase_def loadForce_def loadMoment_def
        Let_def field_simps)
next
  case Moment
  then show ?thesis using assms(2) by simp
qed

text \<open>With exactly one end released the adjustment zeroes the released end's moment,
  carries half of the change to the other end and shifts the shears by
  \<open>-1.5 * dm / L\<close> and its opposite. The force residual is unchanged; the moment
  residual changes by three times the change of the released moment.\<close>

lemma start_release_effect:
  assumes "L \<noteq> 0" "truthy (releaseStart el)" "\<not> truthy (releaseEnd el)"
  shows "m1 (femLocal L c s el l) = 0 \<and>
     m2 (femLocal L c s el l) = m2 (feaBase L c s l) + (1 / 2) * (- m1 (feaBase L c s l)) \<and>
     v1 (femLocal L c s el l) = v1 (feaBase L c s l) + (- (15 / 10) * (- m1 (feaBase L c s l)) / L) \<and>
     v2 (femLocal L c s el l) = v2 (feaBase L c s l) - (- (15 / 10) * (- m1 (feaBase L c s l)) / L) \<and>
     forceResidual L c s l (femLocal L c s el l) = forceResidual L c s l (feaBase L c s l) \<and>
     momentResidual L c s l (femLocal L c s el l) =
       momentResidual L c s l (feaBase L c s l) - 3 * m1 (feaBase L c s l)"
  using assms
  by (simp add: femLocal_def releaseAdjust_def releaseStartAdjust_def Let_def
      forceResidual_def momentResidual_def field_simps)

lemma end_release_effect:
  assumes "L \<noteq> 0" "\<not> truthy (releaseStart el)" "truthy (releaseEnd el)"
  shows "m2 (femLocal L c s el l) = 0 \<and>
     m1 (femLocal L c s el l) = m1 (feaBase L c s l) + (1 / 2) * (- m2 (feaBase L c s l)) \<and>
     v1 (femLocal L c s el l) = v1 (feaBase L c s l) + (- (15 / 10) * (- m2 (feaBase L c s l)) / L) \<and>
     v2 (femLocal L c s el l) = v2 (feaBase L c s l) - (- (15 / 10) * (- m2 (feaBase L c s l)) / L) \<and>
     forceResidual L c s l (femLocal L c s el l) = forceResidual L c s l (feaBase L c s l) \<and>
     momentResidual L c s l (femLocal L c s el l) =
       momentResidual L c s l (feaBase L c s l) - 3 * m2 (feaBase L c s l)"
  using assms
  by (simp add: femLocal_def releaseAdjust_def releaseEndAdjust_def Let_def
      forceResidual_def momentResidual_def field_simps)

text \<open>
  C5 fails on a propped segment. A horizontal element of length \<open>2\<close> with the start
  moment released carries a uniform load of \<open>12\<close>. Before the adjustment the
  fixed-end actions are in equilibrium. The adjustment gives end shears \<open>-15\<close> at the
  released end and \<open>-9\<close> at the fixed end with end moment \<open>6\<close>: the forces still
  balance, the moments about the start node do not (residual \<open>12\<close>). Equilibrium
  needs \<open>-9\<close> at the released end and \<open>-15\<close> at the fixed end.
\<close>

theorem C5_release_breaks_equilibrium:
  "femLocal 2 1 0
     \<lparr>eid = 1, startNode = 1, endNode = 2, elE = 200, elA = 50, elI = 200,
      releaseStart = Some True, releaseEnd = None\<rparr>
     \<lparr>lid = ''w'', elementId = Some 1, nodeId = None, ltype = Distributed, magnitude = 12,
      ldirection = None, location = None\<rparr>
   = \<lparr>fx1 = 0, v1 = - 15, m1 = 0, fx2 = 0, v2 = - 9, m2 = 6\<rparr> \<and>
   momentResidual 2 1 0
     \<lparr>lid = ''w'', elementId = Some 1, nodeId = None, ltype = Distributed, magnitude = 12,
      ldirection = None, location = None\<rparr>
     (feaBase 2 1 0
       \<lparr>lid = ''w'', elementId = Some 1, nodeId = None, ltype = Distributed, magnitude = 12,
        ldirection = None, location = None\<rparr>) = 0 \<and>
   forceResidual 2 1 0
     \<lparr>lid = ''w'', elementId = Some 1, nodeId = None, ltype = Distributed, magnitude = 12,
      ldirection = None, location = None\<rparr>
     \<lparr>fx1 = 0, v1 = - 15, m1 = 0, fx2 = 0, v2 = - 9, m2 = 6\<rparr> = 0 \<and>
   momentResidual 2 1 0
     \<lparr>lid = ''w'', elementId = Some 1, nodeId = None, ltype = Distributed, magnitude = 12,
      ldirection = None, location = None\<rparr>
     \<lparr>fx1 = 0, v1 = - 15, m1 = 0, fx2 = 0, v2 = - 9, m2 = 6\<rparr> = 12 \<and>
   momentResidual 2 1 0
     \<lparr>lid = ''w'', elementId = Some 1, nodeId = None, ltype = Distributed, magnitude = 12,
      ldirection = None, location = None\<rparr>
     \<lparr>fx1 = 0, v1 = - 9, m1 = 0, fx2 = 0, v2 = - 15, m2 = 6\<rparr> = 0"
  by (simp add: femLocal_def releaseAdjust_def releaseStartAdjust_def feaBase_def decomp_def
      dir_or_y_def truthy_def momentResidual_def forceResidual_def loadMoment_def loadForce_def
      Let_def)

section \<open>Load remapping in autoConnectNodes\<close>

text \<open>
  C7 fails for a load at a split position. The element from \<open>(0,0)\<close> to \<open>(2,0)\<close> is
  crossed by node 3 at its midpoint and carries a point load at the default location
  \<open>0.5\<close>. The location lies in the closed range of both sub-segments, so the load is
  cloned onto both: at location \<open>1\<close> of the first and at location \<open>0\<close> of the second.
\<close>

theorem C7_point_load_duplicated:
  "autoConnectNodes (\<lambda>k. ''r'')
     [\<lparr>nid = 1, nx = 0, ny = 0, restraints = (True, True, True)\<rparr>,
      \<lparr>nid = 2, nx = 2, ny = 0, restraints = (False, True, False)\<rparr>,
      \<lparr>nid = 3, nx = 1, ny = 0, restraints = (False, False, False)\<rparr>]
     [\<lparr>eid = 1, startNode = 1, endNode = 2, elE = 200, elA = 50, elI = 200,
       releaseStart = None, releaseEnd = None\<rparr>]
     [\<lparr>lid = ''p'', elementId = Some 1, nodeId = None, ltype = Point, magnitude = 10,
       ldirection = None, location = None\<rparr>]
   = ([\<lparr>nid = 1, nx = 0, ny = 0, restraints = (True, True, True)\<rparr>,
       \<lparr>nid = 2, nx = 2, ny = 0, restraints = (False, True, False)\<rparr>,
       \<lparr>nid = 3, nx = 1, ny = 0, restraints = (False, False, False)\<rparr>],
      [\<lparr>eid = 2, startNode = 1, endNode = 3, elE = 200, elA = 50, elI = 200,
        releaseStart = None, releaseEnd = Some False\<rparr>,
       \<lparr>eid = 3, startNode = 3, endNode = 2, elE = 200, elA = 50, elI = 200,
        releaseStart = Some False, releaseEnd = None\<rparr>],
      [\<lparr>lid = ''auto-r'', elementId = Some 2, nodeId = None, ltype = Point, magnitude = 10,
        ldirection = None, location = Some 1\<rparr>,
       \<lparr>lid = ''auto-r'', elementId = Some 3, nodeId = None, ltype = Point, magnitude = 10,
        ldirection = None, location = Some 0\<rparr>])"
  by (simp add: autoConnectNodes_def Let_def connectElement_def findNode_def
      isSplitNode_def getDist_def truthy_id_def keepElement_def loadsOf_def cloneLoad_def
      loc_or_half_def)

section \<open>Numeric cleanup in the result loop\<close>

lemma upt6: "[0..<6] = [0, 1, 2, 3, 4, 5]"
  by (simp add: upt_rec)

lemma stationXs_set:
  "set (stationXs L elLoads) =
     {0, L} \<union> (\<Union>l \<in> set elLoads. (let loc = loc_or_half l * L
                            in if loc > 0 \<and> loc < L
                               then {loc, max 0 (loc - 1 / 1000), min L (loc + 1 / 1000)}
                               else {})) \<union> (\<lambda>i. real i * L / 100) ` {0..<101}"
  by (auto simp: stationXs_def Let_def split: if_splits)

lemma stationXs_le: "0 \<le> L \<Longrightarrow> x \<in> set (stationXs L elLoads) \<Longrightarrow> x \<le> L"
proof -
  assume L: "0 \<le> L" and x: "x \<in> set (stationXs L elLoads)"
  have g: "\<And>i::nat. i < 101 \<Longrightarrow> real i * L / 100 \<le> L"
  proof -
    fix i :: nat assume "i < 101"
    then have "real i \<le> 100" by simp
    then have "real i * L \<le> 100 * L" using L by (rule mult_right_mono)
    then show "real i * L / 100 \<le> L" by simp
  qed
  have h: "\<And>t. t * L < L \<Longrightarrow> t \<le> 1"
  proof (rule ccontr)
    fix t assume t: "t * L < L" "\<not> t \<le> 1"
    then have "1 \<le> t" by simp
    then have "1 * L \<le> t * L" using L by (rule mult_right_mono)
    with t(1) show False by simp
  qed
  from x show ?thesis unfolding stationXs_set using L g
    by (auto simp: Let_def split: if_splits intro: h)
qed

lemma sorted_le_last:
  fixes xs :: "real list"
  shows "sorted xs \<Longrightarrow> x \<in> set xs \<Longrightarrow> x \<le> last xs"
proof (induction xs)
  case Nil
  then show ?case by simp
next
  case (Cons a xs)
  show ?case
  proof (cases "xs = []")
    case True
    then show ?thesis using Cons.prems by simp
  next
    case False
    then have l: "last xs \<in> set xs" by simp
    show ?thesis
    proof (cases "x = a")
      case True
      then show ?thesis using Cons.prems(1) l False by auto
    next
      case False
      then show ?thesis using Cons \<open>xs \<noteq> []\<close> by auto
    qed
  qed
qed

lemma stationXs_nonempty: "stationXs L elLoads \<noteq> []"
proof -
  have "0 \<in> set (stationXs L elLoads)" unfolding stationXs_set by simp
  then show ?thesis by auto
qed

text \<open>The stations are sorted, so the last one is the element's end.\<close>

lemma stationXs_last: "0 \<le> L \<Longrightarrow> last (stationXs L elLoads) = L"
proof -
  assume L: "0 \<le> L"
  have s: "sorted (stationXs L elLoads)" by (simp add: stationXs_def)
  have "L \<in> set (stationXs L elLoads)" unfolding stationXs_set by simp
  then have "L \<le> last (stationXs L elLoads)" using s by (simp add: sorted_le_last)
  moreover have "last (stationXs L elLoads) \<le> L"
    using stationXs_le [OF L] last_in_set [OF stationXs_nonempty] by blast
  ultimately show ?thesis by simp
qed

lemma station_fields:
  "st_x (mkStation n1 L c s u sf ls x) = x"
  "st_deflectionY (mkStation n1 L c s u sf ls x) = deflectionY (calculateExactValues x L c s u sf ls)"
  "st_axial (mkStation n1 L c s u sf ls x) = axial (calculateExactValues x L c s u sf ls)"
  "st_shear (mkStation n1 L c s u sf ls x) = shear (calculateExactValues x L c s u sf ls)"
  "st_moment (mkStation n1 L c s u sf ls x) = moment (calculateExactValues x L c s u sf ls)"
  by (simp_all add: mkStation_def Let_def)

text \<open>A span of length \<open>1\<close> with both ends fully fixed under a uniform load of
  \<open>1/32\<close>. Every DOF is restrained: the boundary conditions replace the whole system
  by the identity with a zero right-hand side, all displacements are \<open>0\<close>, and the
  total end forces \<open>F_total\<close> are the fixed-end actions of the load.\<close>

lemma fixed_span_K:
  "assembleStiffness [\<lparr>nid = 1, nx = 0, ny = 0, restraints = (True, True, True)\<rparr>,
      \<lparr>nid = 2, nx = 1, ny = 0, restraints = (True, True, True)\<rparr>]
     [\<lparr>eid = 1, startNode = 1, endNode = 2, elE = 200, elA = 50, elI = 200,
       releaseStart = None, releaseEnd = None\<rparr>] Elastic =
   [[1000000, 0, 0, - 1000000, 0, 0],
    [0, 480000, 240000, 0, - 480000, 240000],
    [0, 240000, 160000, 0, - 240000, 80000],
    [- 1000000, 0, 0, 1000000, 0, 0],
    [0, - 480000, - 240000, 0, 480000, - 240000],
    [0, 240000, 80000, 0, - 240000, 160000]]"
  by (simp add: assembleStiffness_def assembleElement_def getDofIndex_def nodeIndexMap_def
      findNode_def elementStiffness_def effProps_def kGlobalEl_def transT_def kLocal_def
      assignAll_def setEntry_def createMatrix_def scatter_def addEntry_def dofMap_def
      truthy_def upt6 Let_def list_update_Cons_numeral replicate_numeral)

lemma fixed_span_F:
  "assembleLoads [\<lparr>nid = 1, nx = 0, ny = 0, restraints = (True, True, True)\<rparr>,
      \<lparr>nid = 2, nx = 1, ny = 0, restraints = (True, True, True)\<rparr>]
     [\<lparr>eid = 1, startNode = 1, endNode = 2, elE = 200, elA = 50, elI = 200,
       releaseStart = None, releaseEnd = None\<rparr>]
     [\<lparr>lid = ''w'', elementId = Some 1, nodeId = None, ltype = Distributed,
       magnitude = 1 / 32, ldirection = None, location = None\<rparr>] =
   [0, 1 / 64, 1 / 384, 0, 1 / 64, - (1 / 384)]"
  by (simp add: assembleLoads_def applyLoad_def applyElementLoad_def truthy_id_def
      getDofIndex_def nodeIndexMap_def findNode_def femLocal_def releaseAdjust_def feaBase_def
      decomp_def dir_or_y_def truthy_def subtractFem_def subAt_def dofMap_def createVector_def
      Let_def list_update_Cons_numeral replicate_numeral)

lemma fixed_span_boundary:
  "applyBoundary [\<lparr>nid = 1, nx = 0, ny = 0, restraints = (True, True, True)\<rparr>,
      \<lparr>nid = 2, nx = 1, ny = 0, restraints = (True, True, True)\<rparr>]
   [[1000000, 0, 0, - 1000000, 0, 0],
    [0, 480000, 240000, 0, - 480000, 240000],
    [0, 240000, 160000, 0, - 240000, 80000],
    [- 1000000, 0, 0, 1000000, 0, 0],
    [0, - 480000, - 240000, 0, 480000, - 240000],
    [0, 240000, 80000, 0, - 240000, 160000]]
   [0, 1 / 64, 1 / 384, 0, 1 / 64, - (1 / 384)] =
   ([[1,0,0,0,0,0],[0,1,0,0,0,0],[0,0,1,0,0,0],[0,0,0,1,0,0],[0,0,0,0,1,0],[0,0,0,0,0,1]],
    [0, 0, 0, 0, 0, 0])"
  by (simp add: applyBoundary_def restrainNode_def restrainDof_def nodeIndexMap_def
      setEntry_def upt6 list_update_Cons_numeral)

lemma solve_identity6:
  "solveLinearSystem
     [[1,0,0,0,0,0],[0,1,0,0,0,0],[0,0,1,0,0,0],[0,0,0,1,0,0],[0,0,0,0,1,0],[0,0,0,0,0,1]]
     [0, 0, 0, 0, 0, 0] = [0, 0, 0, 0, 0, 0]"
  by (simp add: solveLinearSystem_def augment_def forwardElim_def elimStep_def findMaxRow_def
      swapRows_def elimRow_def pivotTol_def backSub_def backSubStep_def createVector_def
      upt_rec Let_def list_update_Cons_numeral replicate_numeral)

lemma fixed_span_U:
  "solveDisplacements [\<lparr>nid = 1, nx = 0, ny = 0, restraints = (True, True, True)\<rparr>,
      \<lparr>nid = 2, nx = 1, ny = 0, restraints = (True, True, True)\<rparr>]
     [\<lparr>eid = 1, startNode = 1, endNode = 2, elE = 200, elA = 50, elI = 200,
       releaseStart = None, releaseEnd = None\<rparr>]
     [\<lparr>lid = ''w'', elementId = Some 1, nodeId = None, ltype = Distributed,
       magnitude = 1 / 32, ldirection = None, location = None\<rparr>] Elastic = [0, 0, 0, 0, 0, 0]"
  by (simp add: solveDisplacements_def fixed_span_K fixed_span_F fixed_span_boundary
      solve_identity6)

lemma fixed_span_Ftotal:
  "fTotal Elastic \<lparr>eid = 1, startNode = 1, endNode = 2, elE = 200, elA = 50, elI = 200,
       releaseStart = None, releaseEnd = None\<rparr> 1 1 0 [0, 0, 0, 0, 0, 0]
     [\<lparr>lid = ''w'', elementId = Some 1, nodeId = None, ltype = Distributed,
       magnitude = 1 / 32, ldirection = None, location = None\<rparr>] =
   [0, - (1 / 64), - (1 / 384), 0, - (1 / 64), 1 / 384]"
  by (simp add: fTotal_def effProps_def fStiff_def femSum_def femLocal_def releaseAdjust_def
      feaBase_def decomp_def dir_or_y_def truthy_def upt6 Let_def)

lemma clean_small:
  "cleanValue 0 = 0" "cleanValue (- (1 / 64)) = 0" "cleanValue (- (1 / 384)) = 0"
  by (simp_all add: cleanValue_def js_round_def)

lemma fixed_span_result:
  "hd (res_elements (solveStructure [\<lparr>nid = 1, nx = 0, ny = 0, restraints = (True, True, True)\<rparr>,
      \<lparr>nid = 2, nx = 1, ny = 0, restraints = (True, True, True)\<rparr>]
     [\<lparr>eid = 1, startNode = 1, endNode = 2, elE = 200, elA = 50, elI = 200,
       releaseStart = None, releaseEnd = None\<rparr>]
     [\<lparr>lid = ''w'', elementId = Some 1, nodeId = None, ltype = Distributed,
       magnitude = 1 / 32, ldirection = None, location = None\<rparr>] Elastic)) =
   \<lparr>res_elementId = 1,
     stations = map (mkStation \<lparr>nid = 1, nx = 0, ny = 0, restraints = (True, True, True)\<rparr> 1 1 0 [0, 0, 0, 0, 0, 0] \<lparr>sf_fx = 0, sf_fy = 0, sf_m = 0\<rparr>
        [\<lparr>lid = ''w'', elementId = Some 1, nodeId = None, ltype = Distributed,
       magnitude = 1 / 32, ldirection = None, location = None\<rparr>])
       (stationXs 1 [\<lparr>lid = ''w'', elementId = Some 1, nodeId = None, ltype = Distributed,
       magnitude = 1 / 32, ldirection = None, location = None\<rparr>]),
     maxAxial = cleanValue (runMax st_axial (map (mkStation \<lparr>nid = 1, nx = 0, ny = 0, restraints = (True, True, True)\<rparr> 1 1 0 [0, 0, 0, 0, 0, 0] \<lparr>sf_fx = 0, sf_fy = 0, sf_m = 0\<rparr>
        [\<lparr>lid = ''w'', elementId = Some 1, nodeId = None, ltype = Distributed,
       magnitude = 1 / 32, ldirection = None, location = None\<rparr>])
       (stationXs 1 [\<lparr>lid = ''w'', elementId = Some 1, nodeId = None, ltype = Distributed,
       magnitude = 1 / 32, ldirection = None, location = None\<rparr>])) 0),
     maxMoment = cleanValue (runMax st_moment (map (mkStation \<lparr>nid = 1, nx = 0, ny = 0, restraints = (True, True, True)\<rparr> 1 1 0 [0, 0, 0, 0, 0, 0] \<lparr>sf_fx = 0, sf_fy = 0, sf_m = 0\<rparr>
        [\<lparr>lid = ''w'', elementId = Some 1, nodeId = None, ltype = Distributed,
       magnitude = 1 / 32, ldirection = None, location = None\<rparr>])
       (stationXs 1 [\<lparr>lid = ''w'', elementId = Some 1, nodeId = None, ltype = Distributed,
       magnitude = 1 / 32, ldirection = None, location = None\<rparr>])) 0),
     maxShear = cleanValue (runMax st_shear (map (mkStation \<lparr>nid = 1, nx = 0, ny = 0, restraints = (True, True, True)\<rparr> 1 1 0 [0, 0, 0, 0, 0, 0] \<lparr>sf_fx = 0, sf_fy = 0, sf_m = 0\<rparr>
        [\<lparr>lid = ''w'', elementId = Some 1, nodeId = None, ltype = Distributed,
       magnitude = 1 / 32, ldirection = None, location = None\<rparr>])
       (stationXs 1 [\<lparr>lid = ''w'', elementId = Some 1, nodeId = None, ltype = Distributed,
       magnitude = 1 / 32, ldirection = None, location = None\<rparr>])) 0),
     res_u_local = [0, 0, 0, 0, 0, 0],
     res_startForces = \<lparr>sf_fx = 0, sf_fy = 0, sf_m = 0\<rparr>\<rparr>"
proof -
  have e: "res_elements (solveStructure nodes [el] loads st) =
      fst (elementResult nodes loads st (solveDisplacements nodes [el] loads st) el ([], 0))"
    for nodes el loads st
    by (simp add: solveStructure_def Let_def)
  show ?thesis
    unfolding e fixed_span_U
    by (simp add: elementResult_def getDofIndex_def nodeIndexMap_def findNode_def uLocal_def
        fixed_span_Ftotal clean_small Let_def)
qed

text \<open>
  C6 fails on this span. The uncleaned total end forces are
  \<open>F_total = [0, -1/64, -1/384, 0, -1/64, 1/384]\<close>. The result loop passes them
  through the snap pass before the station arithmetic uses them: the stored start
  forces are \<open>(0, 0, 0)\<close>. At the end station \<open>x = 1\<close> the reported shear is
  therefore the cleaned value of \<open>0 + 1/32\<close>, which is \<open>0.0313\<close>, while the shear
  computed from the uncleaned start forces is \<open>-1/64 + 1/32 = 1/64\<close>, whose cleaned
  value is \<open>0\<close>.
\<close>

theorem C6_start_forces_cleaned:
  "res_u_local (hd (res_elements (solveStructure [\<lparr>nid = 1, nx = 0, ny = 0, restraints = (True, True, True)\<rparr>,
      \<lparr>nid = 2, nx = 1, ny = 0, restraints = (True, True, True)\<rparr>]
     [\<lparr>eid = 1, startNode = 1, endNode = 2, elE = 200, elA = 50, elI = 200,
       releaseStart = None, releaseEnd = None\<rparr>]
     [\<lparr>lid = ''w'', elementId = Some 1, nodeId = None, ltype = Distributed,
       magnitude = 1 / 32, ldirection = None, location = None\<rparr>] Elastic))) = [0, 0, 0, 0, 0, 0] \<and>
   fTotal Elastic \<lparr>eid = 1, startNode = 1, endNode = 2, elE = 200, elA = 50, elI = 200,
       releaseStart = None, releaseEnd = None\<rparr> 1 1 0
     (res_u_local (hd (res_elements (solveStructure [\<lparr>nid = 1, nx = 0, ny = 0, restraints = (True, True, True)\<rparr>,
      \<lparr>nid = 2, nx = 1, ny = 0, restraints = (True, True, True)\<rparr>]
     [\<lparr>eid = 1, startNode = 1, endNode = 2, elE = 200, elA = 50, elI = 200,
       releaseStart = None, releaseEnd = None\<rparr>]
     [\<lparr>lid = ''w'', elementId = Some 1, nodeId = None, ltype = Distributed,
       magnitude = 1 / 32, ldirection = None, location = None\<rparr>] Elastic))))
     [\<lparr>lid = ''w'', elementId = Some 1, nodeId = None, ltype = Distributed,
       magnitude = 1 / 32, ldirection = None, location = None\<rparr>] =
     [0, - (1 / 64), - (1 / 384), 0, - (1 / 64), 1 / 384] \<and>
   res_startForces (hd (res_elements (solveStructure [\<lparr>nid = 1, nx = 0, ny = 0, restraints = (True, True, True)\<rparr>,
      \<lparr>nid = 2, nx = 1, ny = 0, restraints = (True, True, True)\<rparr>]
     [\<lparr>eid = 1, startNode = 1, endNode = 2, elE = 200, elA = 50, elI = 200,
       releaseStart = None, releaseEnd = None\<rparr>]
     [\<lparr>lid = ''w'', elementId = Some 1, nodeId = None, ltype = Distributed,
       magnitude = 1 / 32, ldirection = None, location = None\<rparr>] Elastic))) = \<lparr>sf_fx = 0, sf_fy = 0, sf_m = 0\<rparr> \<and>
   st_x (last (stations (hd (res_elements (solveStructure [\<lparr>nid = 1, nx = 0, ny = 0, restraints = (True, True, True)\<rparr>,
      \<lparr>nid = 2, nx = 1, ny = 0, restraints = (True, True, True)\<rparr>]
     [\<lparr>eid = 1, startNode = 1, endNode = 2, elE = 200, elA = 50, elI = 200,
       releaseStart = None, releaseEnd = None\<rparr>]
     [\<lparr>lid = ''w'', elementId = Some 1, nodeId = None, ltype = Distributed,
       magnitude = 1 / 32, ldirection = None, location = None\<rparr>] Elastic))))) = 1 \<and>
   st_shear (last (stations (hd (res_elements (solveStructure [\<lparr>nid = 1, nx = 0, ny = 0, restraints = (True, True, True)\<rparr>,
      \<lparr>nid = 2, nx = 1, ny = 0, restraints = (True, True, True)\<rparr>]
     [\<lparr>eid = 1, startNode = 1, endNode = 2, elE = 200, elA = 50, elI = 200,
       releaseStart = None, releaseEnd = None\<rparr>]
     [\<lparr>lid = ''w'', elementId = Some 1, nodeId = None, ltype = Distributed,
       magnitude = 1 / 32, ldirection = None, location = None\<rparr>] Elastic))))) = 313 / 10000 \<and>
   fst (snd (rawForces (clampX 1 1) 1 1 0 \<lparr>sf_fx = 0, sf_fy = - (1 / 64), sf_m = - (1 / 384)\<rparr>
     [\<lparr>lid = ''w'', elementId = Some 1, nodeId = None, ltype = Distributed,
       magnitude = 1 / 32, ldirection = None, location = None\<rparr>])) = 1 / 64 \<and>
   shear (calculateExactValues 1 1 1 0 [0, 0, 0, 0, 0, 0] \<lparr>sf_fx = 0, sf_fy = - (1 / 64), sf_m = - (1 / 384)\<rparr>
     [\<lparr>lid = ''w'', elementId = Some 1, nodeId = None, ltype = Distributed,
       magnitude = 1 / 32, ldirection = None, location = None\<rparr>]) = 0"
proof -
  have u: "res_u_local (hd (res_elements (solveStructure [\<lparr>nid = 1, nx = 0, ny = 0, restraints = (True, True, True)\<rparr>,
      \<lparr>nid = 2, nx = 1, ny = 0, restraints = (True, True, True)\<rparr>]
     [\<lparr>eid = 1, startNode = 1, endNode = 2, elE = 200, elA = 50, elI = 200,
       releaseStart = None, releaseEnd = None\<rparr>]
     [\<lparr>lid = ''w'', elementId = Some 1, nodeId = None, ltype = Distributed,
       magnitude = 1 / 32, ldirection = None, location = None\<rparr>] Elastic))) = [0, 0, 0, 0, 0, 0]"
    unfolding fixed_span_result by simp
  have f: "fTotal Elastic \<lparr>eid = 1, startNode = 1, endNode = 2, elE = 200, elA = 50, elI = 200,
       releaseStart = None, releaseEnd = None\<rparr> 1 1 0
     (res_u_local (hd (res_elements (solveStructure [\<lparr>nid = 1, nx = 0, ny = 0, restraints = (True, True, True)\<rparr>,
      \<lparr>nid = 2, nx = 1, ny = 0, restraints = (True, True, True)\<rparr>]
     [\<lparr>eid = 1, startNode = 1, endNode = 2, elE = 200, elA = 50, elI = 200,
       releaseStart = None, releaseEnd = None\<rparr>]
     [\<lparr>lid = ''w'', elementId = Some 1, nodeId = None, ltype = Distributed,
       magnitude = 1 / 32, ldirection = None, location = None\<rparr>] Elastic))))
     [\<lparr>lid = ''w'', elementId = Some 1, nodeId = None, ltype = Distributed,
       magnitude = 1 / 32, ldirection = None, location = None\<rparr>] =
     [0, - (1 / 64), - (1 / 384), 0, - (1 / 64), 1 / 384]"
    unfolding u by (rule fixed_span_Ftotal)
  have sf: "res_startForces (hd (res_elements (solveStructure [\<lparr>nid = 1, nx = 0, ny = 0, restraints = (True, True, True)\<rparr>,
      \<lparr>nid = 2, nx = 1, ny = 0, restraints = (True, True, True)\<rparr>]
     [\<lparr>eid = 1, startNode = 1, endNode = 2, elE = 200, elA = 50, elI = 200,
       releaseStart = None, releaseEnd = None\<rparr>]
     [\<lparr>lid = ''w'', elementId = Some 1, nodeId = None, ltype = Distributed,
       magnitude = 1 / 32, ldirection = None, location = None\<rparr>] Elastic))) = \<lparr>sf_fx = 0, sf_fy = 0, sf_m = 0\<rparr>"
    unfolding fixed_span_result by simp
  have l: "last (stations (hd (res_elements (solveStructure [\<lparr>nid = 1, nx = 0, ny = 0, restraints = (True, True, True)\<rparr>,
      \<lparr>nid = 2, nx = 1, ny = 0, restraints = (True, True, True)\<rparr>]
     [\<lparr>eid = 1, startNode = 1, endNode = 2, elE = 200, elA = 50, elI = 200,
       releaseStart = None, releaseEnd = None\<rparr>]
     [\<lparr>lid = ''w'', elementId = Some 1, nodeId = None, ltype = Distributed,
       magnitude = 1 / 32, ldirection = None, location = None\<rparr>] Elastic)))) =
      mkStation \<lparr>nid = 1, nx = 0, ny = 0, restraints = (True, True, True)\<rparr> 1 1 0 [0, 0, 0, 0, 0, 0] \<lparr>sf_fx = 0, sf_fy = 0, sf_m = 0\<rparr>
        [\<lparr>lid = ''w'', elementId = Some 1, nodeId = None, ltype = Distributed,
       magnitude = 1 / 32, ldirection = None, location = None\<rparr>] 1"
    unfolding fixed_span_result by (simp add: last_map stationXs_nonempty stationXs_last)
  have x: "st_x (last (stations (hd (res_elements (solveStructure [\<lparr>nid = 1, nx = 0, ny = 0, restraints = (True, True, True)\<rparr>,
      \<lparr>nid = 2, nx = 1, ny = 0, restraints = (True, True, True)\<rparr>]
     [\<lparr>eid = 1, startNode = 1, endNode = 2, elE = 200, elA = 50, elI = 200,
       releaseStart = None, releaseEnd = None\<rparr>]
     [\<lparr>lid = ''w'', elementId = Some 1, nodeId = None, ltype = Distributed,
       magnitude = 1 / 32, ldirection = None, location = None\<rparr>] Elastic))))) = 1"
    unfolding l station_fields ..
  have v: "st_shear (last (stations (hd (res_elements (solveStructure [\<lparr>nid = 1, nx = 0, ny = 0, restraints = (True, True, True)\<rparr>,
      \<lparr>nid = 2, nx = 1, ny = 0, restraints = (True, True, True)\<rparr>]
     [\<lparr>eid = 1, startNode = 1, endNode = 2, elE = 200, elA = 50, elI = 200,
       releaseStart = None, releaseEnd = None\<rparr>]
     [\<lparr>lid = ''w'', elementId = Some 1, nodeId = None, ltype = Distributed,
       magnitude = 1 / 32, ldirection = None, location = None\<rparr>] Elastic))))) = 313 / 10000"
    unfolding l station_fields
    by (simp add: calculateExactValues_def clampX_def rawForces_def exactLoadStep_def
        localMag_def dir_or_y_def cleanValue_def js_round_def toFixed4_def Let_def)
  have r: "fst (snd (rawForces (clampX 1 1) 1 1 0 \<lparr>sf_fx = 0, sf_fy = - (1 / 64), sf_m = - (1 / 384)\<rparr>
     [\<lparr>lid = ''w'', elementId = Some 1, nodeId = None, ltype = Distributed,
       magnitude = 1 / 32, ldirection = None, location = None\<rparr>])) = 1 / 64"
    by (simp add: clampX_def rawForces_def exactLoadStep_def localMag_def dir_or_y_def Let_def)
  have c: "shear (calculateExactValues 1 1 1 0 [0, 0, 0, 0, 0, 0] \<lparr>sf_fx = 0, sf_fy = - (1 / 64), sf_m = - (1 / 384)\<rparr>
     [\<lparr>lid = ''w'', elementId = Some 1, nodeId = None, ltype = Distributed,
       magnitude = 1 / 32, ldirection = None, location = None\<rparr>]) = 0"
    by (simp add: calculateExactValues_def clampX_def rawForces_def exactLoadStep_def
        localMag_def dir_or_y_def cleanValue_def js_round_def Let_def)
  from u f sf x v r c show ?thesis by (intro conjI)
qed

end
